theory Spec2Isabelle
  imports Main "HOL-Library.Word"
begin

section \<open>Data model of transaction-checker.mjs\<close>

text \<open>
  The optimist receives a transaction as a JavaScript object whose fields are the strings
  the ABI decoder produced (process-calldata.mjs): \<open>bytes32\<close> slots as canonical 32-byte
  hex strings, unsigned integers as decimal strings. A canonical string is determined by
  the 256-bit number it denotes, so string equality (\<open>===\<close>) is equality of \<open>256 word\<close>.
  The fields the code first passes through \<open>Number(...)\<close> (\<open>transactionType\<close>,
  \<open>tokenType\<close>, the historic block numbers) are natural numbers; \<open>Number(value) === 0\<close>
  holds exactly when the amount is zero.  The elements of \<open>proof\<close> are taken to arrive in
  the same canonical 32-byte form as \<open>ZERO\<close>, so that \<open>p === ZERO\<close> is equality of values;
  their ABI type is fixed by \<open>PROPOSE_BLOCK_TYPES\<close>, a constant of the configuration that is
  not among the sources.  Were they decimal strings, no element would be identical to
  \<open>ZERO\<close> and the all-ZERO test on \<open>proof\<close> would never fire.  The fields \<open>value\<close> and
  \<open>proof\<close> carry a prime because both words are reserved in Isabelle.
\<close>

type_synonym bytes32 = "256 word"

record transaction =
  transactionHash :: bytes32
  transactionType :: nat
  tokenType :: nat
  value' :: bytes32
  historicRootBlockNumberL2 :: "nat list"
  publicInputHash :: bytes32
  tokenId :: bytes32
  ercAddress :: bytes32
  recipientAddress :: bytes32
  commitments :: "bytes32 list"
  nullifiers :: "bytes32 list"
  compressedSecrets :: "bytes32 list"
  proof' :: "bytes32 list"

record block =
  root :: bytes32

text \<open>
  \<open>TransactionError(message, code)\<close> is the only exception the module raises itself.
  \<open>ExternalFailure\<close> stands for every other rejection that reaches the caller: a
  collaborator that cannot be reached, or a library call that throws.
\<close>

datatype error = TransactionError string nat | ExternalFailure

text \<open>
  What the module reads from outside itself.  \<open>ZERO\<close> is a constant of the configuration;
  \<open>Transaction.checkHash\<close>, the block store \<open>getBlockByBlockNumberL2\<close>, the chain-state
  reader \<open>getVerificationKey\<close> and the remote verifier are collaborators whose code is not
  part of the module, so they are parameters.  The block store is asked about whatever
  \<open>historicRootBlockNumberL2[i]\<close> evaluates to, \<open>None\<close> being JavaScript's \<open>undefined\<close>;
  its answer \<open>None\<close> is \<open>null\<close>.  For the reader and the verifier \<open>None\<close> is a failed call.
\<close>

record env =
  ZERO :: bytes32
  checkHash :: "transaction \<Rightarrow> bool"
  getBlockByBlockNumberL2 :: "nat option \<Rightarrow> block option"
  getVerificationKey :: "nat \<Rightarrow> bytes32 list option"
  zokratesVerify :: "bytes32 list \<Rightarrow> bytes32 list \<Rightarrow> bytes32 list \<Rightarrow> bool option"

text \<open>The external calls a check makes, in the order it makes them.\<close>

datatype io =
  VkRead nat
  | BlockRead "nat option"
  | VerifyPost "bytes32 list" "bytes32 list" "bytes32 list"

text \<open>\<open>xs[i]\<close> in JavaScript: \<open>undefined\<close> (here \<open>None\<close>) outside the array.\<close>

definition slot :: "'a list \<Rightarrow> nat \<Rightarrow> 'a option" where
  "slot xs i = (if i < length xs then Some (xs ! i) else None)"

section \<open>checkTransactionHash\<close>

definition checkTransactionHash :: "env \<Rightarrow> transaction \<Rightarrow> error + unit" where
  "checkTransactionHash e t =
     (if \<not> checkHash e t
      then Inl (TransactionError ''The transaction hash did not match the transaction data'' 0)
      else Inr ())"

section \<open>checkTransactionType\<close>

text \<open>
  One branch per \<open>case\<close> of the \<open>switch\<close>, the disjuncts in the order of the source.
  \<open>some\<close> is \<open>list_ex\<close>, \<open>every\<close> is \<open>list_all\<close>.  A slot compared with \<open>===\<close> is
  \<open>slot xs i = Some z\<close> (false when the slot is missing), one compared with \<open>!==\<close> is
  \<open>slot xs i \<noteq> Some z\<close> (true when it is missing).
\<close>

definition checkTransactionType :: "env \<Rightarrow> transaction \<Rightarrow> error + unit" where
  "checkTransactionType e t =
     (if transactionType t = 0 then
        (if publicInputHash t = ZERO e \<or>
            (tokenType t \<noteq> 0 \<and> tokenId t = ZERO e \<and> value' t = 0) \<or>
            ercAddress t = ZERO e \<or>
            recipientAddress t \<noteq> ZERO e \<or>
            slot (commitments t) 0 = Some (ZERO e) \<or>
            slot (commitments t) 1 \<noteq> Some (ZERO e) \<or>
            length (commitments t) \<noteq> 2 \<or>
            list_ex (\<lambda>n. n \<noteq> ZERO e) (nullifiers t) \<or>
            list_ex (\<lambda>cs. cs \<noteq> ZERO e) (compressedSecrets t) \<or>
            length (compressedSecrets t) \<noteq> 8 \<or>
            list_all (\<lambda>p. p = ZERO e) (proof' t) \<or>
            slot (historicRootBlockNumberL2 t) 0 \<noteq> Some 0 \<or>
            slot (historicRootBlockNumberL2 t) 1 \<noteq> Some 0
         then Inl (TransactionError
                ''The data provided was inconsistent with a transaction type of DEPOSIT'' 1)
         else Inr ())
      else if transactionType t = 1 then
        (if publicInputHash t = ZERO e \<or>
            tokenId t \<noteq> ZERO e \<or>
            value' t \<noteq> 0 \<or>
            ercAddress t = ZERO e \<or>
            recipientAddress t \<noteq> ZERO e \<or>
            slot (commitments t) 0 = Some (ZERO e) \<or>
            slot (commitments t) 1 \<noteq> Some (ZERO e) \<or>
            length (commitments t) \<noteq> 2 \<or>
            slot (nullifiers t) 0 = Some (ZERO e) \<or>
            slot (nullifiers t) 1 \<noteq> Some (ZERO e) \<or>
            length (nullifiers t) \<noteq> 2 \<or>
            list_all (\<lambda>cs. cs = ZERO e) (compressedSecrets t) \<or>
            length (compressedSecrets t) \<noteq> 8 \<or>
            list_all (\<lambda>p. p = ZERO e) (proof' t)
         then Inl (TransactionError
                ''The data provided was inconsistent with a transaction type of SINGLE_TRANSFER'' 1)
         else Inr ())
      else if transactionType t = 2 then
        (if publicInputHash t = ZERO e \<or>
            tokenId t \<noteq> ZERO e \<or>
            value' t \<noteq> 0 \<or>
            ercAddress t = ZERO e \<or>
            recipientAddress t \<noteq> ZERO e \<or>
            list_ex (\<lambda>c. c = ZERO e) (commitments t) \<or>
            length (commitments t) \<noteq> 2 \<or>
            list_ex (\<lambda>n. n = ZERO e) (nullifiers t) \<or>
            length (nullifiers t) \<noteq> 2 \<or>
            list_all (\<lambda>cs. cs = ZERO e) (compressedSecrets t) \<or>
            length (compressedSecrets t) \<noteq> 8 \<or>
            list_all (\<lambda>p. p = ZERO e) (proof' t)
         then Inl (TransactionError
                ''The data provided was inconsistent with a transaction type of DOUBLE_TRANSFER'' 1)
         else Inr ())
      else if transactionType t = 3 then
        (if publicInputHash t = ZERO e \<or>
            (tokenType t \<noteq> 0 \<and> tokenId t = ZERO e \<and> value' t = 0) \<or>
            ercAddress t = ZERO e \<or>
            recipientAddress t = ZERO e \<or>
            list_ex (\<lambda>c. c \<noteq> ZERO e) (commitments t) \<or>
            slot (nullifiers t) 0 = Some (ZERO e) \<or>
            slot (nullifiers t) 1 \<noteq> Some (ZERO e) \<or>
            length (nullifiers t) \<noteq> 2 \<or>
            list_ex (\<lambda>cs. cs \<noteq> ZERO e) (compressedSecrets t) \<or>
            list_all (\<lambda>p. p = ZERO e) (proof' t)
         then Inl (TransactionError
                ''The data provided was inconsistent with a transaction type of WITHDRAW'' 1)
         else Inr ())
      else Inl (TransactionError ''Unknown transaction type'' 2))"

section \<open>checkHistoricRoot\<close>

text \<open>
  The two \<open>if\<close> statements run one after the other; the first returns early by throwing.
  For a double transfer every element of \<open>historicRootBlockNumberL2\<close> is looked up and the
  first two answers are taken by destructuring: a missing answer is \<open>undefined\<close>, which is
  not \<open>null\<close>.
\<close>

definition checkHistoricRoot :: "env \<Rightarrow> transaction \<Rightarrow> (error + unit) \<times> io list" where
  "checkHistoricRoot e t =
     (let ty = transactionType t;
          hs = historicRootBlockNumberL2 t;
          notFound = TransactionError ''The historic root in the transaction does not exist'' 3;
          (r1, io1) =
            (if ty = 1 \<or> ty = 3 then
               (let historicRootFirst = getBlockByBlockNumberL2 e (slot hs 0)
                in (if historicRootFirst = None then Inl notFound else Inr (),
                    [BlockRead (slot hs 0)]))
             else (Inr (), []))
      in case r1 of
           Inl err \<Rightarrow> (Inl err, io1)
         | Inr _ \<Rightarrow>
             (if ty = 2 then
                (let found = map (\<lambda>h. getBlockByBlockNumberL2 e (Some h)) hs;
                     historicRootFirst = slot found 0;
                     historicRootSecond = slot found 1
                 in (if historicRootFirst = Some None \<or> historicRootSecond = Some None
                     then Inl notFound else Inr (),
                     io1 @ map (\<lambda>h. BlockRead (Some h)) hs))
              else (Inr (), io1)))"

section \<open>verifyProof\<close>

text \<open>
  The array literal handed to \<open>PublicInputs\<close> holds strings, nested arrays (the double
  transfer passes \<open>commitments\<close> and the mapped \<open>nullifiers\<close> as arrays) and, where a slot
  is read outside its array, \<open>undefined\<close>.
\<close>

datatype js = Undefined | Scalar bytes32 | Array "js list"

definition elem :: "bytes32 option \<Rightarrow> js" where
  "elem v = (case v of None \<Rightarrow> Undefined | Some x \<Rightarrow> Scalar x)"

text \<open>
  Modelled from the spec: \<open>generalise(x).hex(32, 31)\<close> belongs to the general-number
  package, which is not among the sources.  The spec's truncation rule: the value is
  re-encoded to 31 bytes, losing the top byte; as a number that is the value modulo
  \<open>2 ^ 248\<close>, written back into a 32-byte string.
\<close>

definition hex_32_31 :: "bytes32 \<Rightarrow> bytes32" where
  "hex_32_31 v = take_bit 248 v"

text \<open>
  Modelled from the spec: the class \<open>PublicInputs\<close> (classes/index.mjs) is not among the
  sources.  Its \<open>publicInputs\<close> is the flat, ordered vector of the elements it was given
  (nested arrays spliced in place).  An \<open>undefined\<close> element cannot be turned into a
  number: construction throws, which the caller sees as a failure that is not a
  \<open>TransactionError\<close>.
\<close>

fun flat :: "js \<Rightarrow> bytes32 option list" where
  "flat Undefined = [None]"
| "flat (Scalar v) = [Some v]"
| "flat (Array xs) = concat (map flat xs)"

definition PublicInputs :: "js list \<Rightarrow> error + bytes32 list" where
  "PublicInputs arr =
     (case those (concat (map flat arr)) of
        None \<Rightarrow> Inl ExternalFailure
      | Some vs \<Rightarrow> Inr vs)"

text \<open>\<open>(await getBlockByBlockNumberL2(h)) ?? { root: ZERO }\<close>\<close>

definition historicRoot :: "env \<Rightarrow> nat option \<Rightarrow> block" where
  "historicRoot e h =
     (case getBlockByBlockNumberL2 e h of None \<Rightarrow> \<lparr>root = ZERO e\<rparr> | Some b \<Rightarrow> b)"

text \<open>
  The \<open>switch\<close> of \<open>verifyProof\<close>: the array literal of each transaction type.  Where
  \<open>nullifiers[0]\<close> is \<open>undefined\<close>, \<open>generalise\<close> throws at once; the model carries the
  \<open>undefined\<close> on to \<open>PublicInputs\<close>, which rejects it.  Nothing external happens in
  between, so the outcome and the external calls are the same.
\<close>

definition inputsArray :: "env \<Rightarrow> transaction \<Rightarrow> block \<Rightarrow> block \<Rightarrow> error + js list" where
  "inputsArray e t historicRootFirst historicRootSecond =
     (if transactionType t = 0 then
        Inr [Scalar (ercAddress t),
             Scalar (tokenId t),
             Scalar (value' t),
             elem (slot (commitments t) 0)]
      else if transactionType t = 1 then
        Inr ([Scalar (ercAddress t),
              elem (slot (commitments t) 0),
              elem (map_option hex_32_31 (slot (nullifiers t) 0)),
              Scalar (root historicRootFirst)]
             @ map (\<lambda>compressedSecret. Scalar (hex_32_31 compressedSecret))
                 (compressedSecrets t))
      else if transactionType t = 2 then
        Inr ([Scalar (ercAddress t),
              Scalar (ercAddress t),
              Array (map Scalar (commitments t)),
              Array (map (\<lambda>nullifier. Scalar (hex_32_31 nullifier)) (nullifiers t)),
              Scalar (root historicRootFirst),
              Scalar (root historicRootSecond)]
             @ map (\<lambda>compressedSecret. Scalar (hex_32_31 compressedSecret))
                 (compressedSecrets t))
      else if transactionType t = 3 then
        Inr [Scalar (ercAddress t),
             Scalar (tokenId t),
             Scalar (value' t),
             elem (map_option hex_32_31 (slot (nullifiers t) 0)),
             Scalar (recipientAddress t),
             Scalar (root historicRootFirst)]
      else Inl (TransactionError ''Unknown transaction type'' 2))"

text \<open>The public-input vector of a transaction: both lookups, the literal, \<open>PublicInputs\<close>.\<close>

definition publicInputs :: "env \<Rightarrow> transaction \<Rightarrow> error + bytes32 list" where
  "publicInputs e t =
     (let historicRootFirst = historicRoot e (slot (historicRootBlockNumberL2 t) 0);
          historicRootSecond = historicRoot e (slot (historicRootBlockNumberL2 t) 1)
      in case inputsArray e t historicRootFirst historicRootSecond of
           Inl err \<Rightarrow> Inl err
         | Inr arr \<Rightarrow> PublicInputs arr)"

text \<open>
  \<open>verifyProof\<close>: the verification key is read first, then both blocks are looked up, then
  the vector is built, then the verifier is called.  \<open>inputs.all.hex(32)\<close> writes each
  element as a 32-byte hex string, which for a 256-bit value loses nothing.
\<close>

definition verifyProof :: "env \<Rightarrow> transaction \<Rightarrow> (error + unit) \<times> io list" where
  "verifyProof e t =
     (case getVerificationKey e (transactionType t) of
        None \<Rightarrow> (Inl ExternalFailure, [VkRead (transactionType t)])
      | Some vkArray \<Rightarrow>
          (let reads = [VkRead (transactionType t),
                        BlockRead (slot (historicRootBlockNumberL2 t) 0),
                        BlockRead (slot (historicRootBlockNumberL2 t) 1)]
           in case publicInputs e t of
                Inl err \<Rightarrow> (Inl err, reads)
              | Inr inputs \<Rightarrow>
                  (case zokratesVerify e vkArray (proof' t) inputs of
                     None \<Rightarrow>
                       (Inl ExternalFailure, reads @ [VerifyPost vkArray (proof' t) inputs])
                   | Some verifies \<Rightarrow>
                       (if \<not> verifies
                        then Inl (TransactionError ''The proof did not verify'' 5)
                        else Inr (),
                        reads @ [VerifyPost vkArray (proof' t) inputs]))))"

section \<open>checkTransaction\<close>

text \<open>
  \<open>Promise.all\<close> fulfils when every promise has fulfilled and rejects with the first
  rejection it is told of.  \<open>firstRejection\<close> reads the outcomes in the order in which
  they settle.
\<close>

fun firstRejection :: "(error + unit) list \<Rightarrow> error + unit" where
  "firstRejection [] = Inr ()"
| "firstRejection (Inl err # rs) = Inl err"
| "firstRejection (Inr u # rs) = firstRejection rs"

text \<open>
  \<open>checkTransactionHash\<close> and \<open>checkTransactionType\<close> contain no \<open>await\<close>: their promises
  are settled when \<open>Promise.all\<close> subscribes to them, and it hears of them in argument
  order, before anything that waits for I/O.  \<open>checkHistoricRoot\<close> and \<open>verifyProof\<close>
  settle when their external calls return, in an order the code does not fix;
  \<open>rootSettlesFirst\<close> says which one did in a given run.
\<close>

definition checkTransaction :: "bool \<Rightarrow> env \<Rightarrow> transaction \<Rightarrow> error + unit" where
  "checkTransaction rootSettlesFirst e t =
     firstRejection
       ([checkTransactionHash e t, checkTransactionType e t] @
        (if rootSettlesFirst
         then [fst (checkHistoricRoot e t), fst (verifyProof e t)]
         else [fst (verifyProof e t), fst (checkHistoricRoot e t)]))"

section \<open>Byte representation\<close>

text \<open>
  The big-endian encoding of a value in \<open>n\<close> bytes, most significant byte first: what a
  hex string of \<open>2 * n\<close> digits spells out, two digits per byte.
\<close>

definition bytesBE :: "nat \<Rightarrow> bytes32 \<Rightarrow> 8 word list" where
  "bytesBE n v = map (\<lambda>i. ucast (drop_bit (8 * i) v)) (rev [0..<n])"

section \<open>The specification's token rule and WITHDRAW template\<close>

text \<open>
  The rule on \<open>tokenType\<close>, \<open>tokenId\<close> and \<open>value\<close> in the words of the specification: the
  token type is fungible (code 0), or the token id is not ZERO, or the value is not 0.
\<close>

definition tokenRule :: "env \<Rightarrow> transaction \<Rightarrow> bool" where
  "tokenRule e t \<longleftrightarrow> tokenType t = 0 \<or> tokenId t \<noteq> ZERO e \<or> value' t \<noteq> 0"

text \<open>
  The WITHDRAW template in the words of the specification, to be compared with case 3 of
  \<open>checkTransactionType\<close>.
\<close>

definition withdrawTemplate :: "env \<Rightarrow> transaction \<Rightarrow> bool" where
  "withdrawTemplate e t \<longleftrightarrow>
     publicInputHash t \<noteq> ZERO e \<and>
     tokenRule e t \<and>
     ercAddress t \<noteq> ZERO e \<and>
     recipientAddress t \<noteq> ZERO e \<and>
     (\<forall>c \<in> set (commitments t). c = ZERO e) \<and>
     length (nullifiers t) = 2 \<and> nullifiers t ! 0 \<noteq> ZERO e \<and> nullifiers t ! 1 = ZERO e \<and>
     length (compressedSecrets t) = 8 \<and> (\<forall>cs \<in> set (compressedSecrets t). cs = ZERO e) \<and>
     \<not> (\<forall>p \<in> set (proof' t). p = ZERO e)"

section \<open>Example environment and transactions\<close>

text \<open>
  A configuration whose \<open>ZERO\<close> is the all-zero word, with a block store holding one block
  (number 7, root 9), a readable verification key and a verifier that accepts; a double
  transfer, a single transfer and a withdrawal.  The first nullifier of each and the last
  compressed secret of the transfers have a nonzero top byte.  The single transfer and
  the double transfer refer to block 8, which the store does not hold.
\<close>

definition exampleEnv :: env where
  "exampleEnv =
     \<lparr>ZERO = 0,
      checkHash = (\<lambda>t. True),
      getBlockByBlockNumberL2 = (\<lambda>h. if h = Some 7 then Some \<lparr>root = 9\<rparr> else None),
      getVerificationKey = (\<lambda>ty. Some [1]),
      zokratesVerify = (\<lambda>vk p i. Some True)\<rparr>"

definition exampleDouble :: transaction where
  "exampleDouble =
     \<lparr>transactionHash = 11, transactionType = 2, tokenType = 0, value' = 0,
      historicRootBlockNumberL2 = [7, 8], publicInputHash = 12, tokenId = 0,
      ercAddress = 1, recipientAddress = 0, commitments = [2, 3],
      nullifiers = [2 ^ 248 + 21, 22],
      compressedSecrets = [31, 32, 33, 34, 35, 36, 37, 2 ^ 255 + 38],
      proof' = [1, 2, 3, 4]\<rparr>"

definition exampleSingle :: transaction where
  "exampleSingle =
     \<lparr>transactionHash = 11, transactionType = 1, tokenType = 0, value' = 0,
      historicRootBlockNumberL2 = [8, 0], publicInputHash = 12, tokenId = 0,
      ercAddress = 1, recipientAddress = 0, commitments = [2, 0],
      nullifiers = [2 ^ 248 + 21, 0],
      compressedSecrets = [31, 32, 33, 34, 35, 36, 37, 2 ^ 255 + 38],
      proof' = [1, 2, 3, 4]\<rparr>"

definition exampleWithdraw :: transaction where
  "exampleWithdraw =
     \<lparr>transactionHash = 11, transactionType = 3, tokenType = 1, value' = 0,
      historicRootBlockNumberL2 = [7, 0], publicInputHash = 12, tokenId = 3,
      ercAddress = 1, recipientAddress = 4, commitments = [0, 0],
      nullifiers = [2 ^ 248 + 21, 0],
      compressedSecrets = [0, 0, 0, 0, 0, 0, 0, 0],
      proof' = [1, 2, 3, 4]\<rparr>"

text \<open>
  A deposit with the literal values of the specification's example, a transaction with
  the unknown type code 4, an environment in which the recomputed hash never matches, and
  one whose verifier rejects every proof.
\<close>

definition exampleDeposit :: transaction where
  "exampleDeposit =
     \<lparr>transactionHash = 11, transactionType = 0, tokenType = 0, value' = 5,
      historicRootBlockNumberL2 = [0, 0], publicInputHash = 12, tokenId = 3,
      ercAddress = 1, recipientAddress = 0, commitments = [2, 0], nullifiers = [0, 0],
      compressedSecrets = [0, 0, 0, 0, 0, 0, 0, 0], proof' = [1, 2, 3, 4]\<rparr>"

definition exampleUnknown :: transaction where
  "exampleUnknown = exampleDeposit\<lparr>transactionType := 4\<rparr>"

definition mismatchEnv :: env where
  "mismatchEnv = exampleEnv\<lparr>checkHash := (\<lambda>t. False)\<rparr>"

definition rejectingEnv :: env where
  "rejectingEnv = exampleEnv\<lparr>zokratesVerify := (\<lambda>vk p i. Some False)\<rparr>"

section \<open>Auxiliary lemmas\<close>

lemma list2: "length xs = 2 \<Longrightarrow> xs = [xs ! 0, xs ! 1]"
  by (cases xs; simp; cases "tl xs"; simp)

lemma list8:
  assumes "length xs = 8"
  shows "xs = [xs ! 0, xs ! 1, xs ! 2, xs ! 3, xs ! 4, xs ! 5, xs ! 6, xs ! 7]"
  using assms by (intro nth_equalityI) (auto simp: nth_Cons' less_Suc_eq numeral_nat)

lemma those_map_Some: "those (map Some xs) = Some xs"
  by (induction xs) simp_all

lemma flat_scalars:
  "concat (map (flat \<circ> (\<lambda>x. Scalar (f x))) xs) = map (Some \<circ> f) xs"
  by (induction xs) simp_all

lemma flat_Scalar: "concat (map (flat \<circ> Scalar) xs) = map Some xs"
  by (induction xs) simp_all

lemma publicInputs_single:
  assumes "transactionType t = 1" and "commitments t \<noteq> []" and "nullifiers t \<noteq> []"
  shows "publicInputs e t =
     Inr ([ercAddress t, commitments t ! 0, hex_32_31 (nullifiers t ! 0),
           root (historicRoot e (slot (historicRootBlockNumberL2 t) 0))]
          @ map hex_32_31 (compressedSecrets t))"
proof -
  have "those (map (\<lambda>x. Some (hex_32_31 x)) (compressedSecrets t))
          = Some (map hex_32_31 (compressedSecrets t))"
    using those_map_Some [of "map hex_32_31 (compressedSecrets t)"] by (simp add: comp_def)
  then show ?thesis
    using assms
    by (simp add: publicInputs_def inputsArray_def PublicInputs_def elem_def slot_def
        flat_scalars comp_def)
qed

lemma publicInputs_double:
  assumes "transactionType t = 2"
  shows "publicInputs e t =
     Inr ([ercAddress t, ercAddress t] @ commitments t @ map hex_32_31 (nullifiers t)
          @ [root (historicRoot e (slot (historicRootBlockNumberL2 t) 0)),
             root (historicRoot e (slot (historicRootBlockNumberL2 t) 1))]
          @ map hex_32_31 (compressedSecrets t))"
proof -
  let ?r1 = "root (historicRoot e (slot (historicRootBlockNumberL2 t) 0))"
  let ?r2 = "root (historicRoot e (slot (historicRootBlockNumberL2 t) 1))"
  let ?all = "[ercAddress t, ercAddress t] @ commitments t @ map hex_32_31 (nullifiers t)
          @ [?r1, ?r2] @ map hex_32_31 (compressedSecrets t)"
  have "concat (map flat
          ([Scalar (ercAddress t), Scalar (ercAddress t), Array (map Scalar (commitments t)),
            Array (map (\<lambda>nullifier. Scalar (hex_32_31 nullifier)) (nullifiers t)),
            Scalar ?r1, Scalar ?r2]
           @ map (\<lambda>compressedSecret. Scalar (hex_32_31 compressedSecret)) (compressedSecrets t)))
        = map Some ?all"
    by (simp add: flat_scalars flat_Scalar)
  then show ?thesis
    using assms those_map_Some [of ?all]
    by (simp add: publicInputs_def inputsArray_def PublicInputs_def)
qed

lemma publicInputs_withdraw:
  assumes "transactionType t = 3" and "nullifiers t \<noteq> []"
  shows "publicInputs e t =
     Inr [ercAddress t, tokenId t, value' t, hex_32_31 (nullifiers t ! 0),
          recipientAddress t, root (historicRoot e (slot (historicRootBlockNumberL2 t) 0))]"
  using assms
  by (simp add: publicInputs_def inputsArray_def PublicInputs_def elem_def slot_def)

lemma byte_kept:
  assumes "i < 31"
  shows "(ucast (drop_bit (8 * i) (hex_32_31 v)) :: 8 word) = ucast (drop_bit (8 * i) v)"
  using assms by (intro bit_word_eqI) (auto simp: hex_32_31_def bit_simps)

lemma byte_lost: "(ucast (drop_bit 248 (hex_32_31 v)) :: 8 word) = 0"
  by (intro bit_word_eqI) (auto simp: hex_32_31_def bit_simps)

lemma bytesBE_32: "bytesBE 32 v = ucast (drop_bit 248 v) # bytesBE 31 v"
proof -
  have "[0..<32] = [0..<31] @ [31::nat]"
    using upt_Suc_append [of 0 31] by simp
  then show ?thesis by (simp add: bytesBE_def)
qed

lemma bytesBE_31_hex: "bytesBE 31 (hex_32_31 v) = bytesBE 31 v"
  by (simp add: bytesBE_def byte_kept)

lemmas examples =
  exampleEnv_def exampleDeposit_def exampleSingle_def exampleDouble_def exampleWithdraw_def
  exampleUnknown_def mismatchEnv_def rejectingEnv_def

lemmas checks =
  checkTransaction_def checkTransactionHash_def checkTransactionType_def
  checkHistoricRoot_def verifyProof_def publicInputs_def inputsArray_def PublicInputs_def
  historicRoot_def elem_def slot_def hex_32_31_def

lemma slot_pair [simp]:
  "length xs = 2 \<Longrightarrow> slot xs 0 = Some (xs ! 0)"
  "length xs = 2 \<Longrightarrow> slot xs 1 = Some (xs ! 1)"
  by (simp_all add: slot_def)

lemma checkTransactionType_deposit:
  assumes "transactionType t = 0"
  shows "checkTransactionType e t =
     (if publicInputHash t = ZERO e \<or>
         (tokenType t \<noteq> 0 \<and> tokenId t = ZERO e \<and> value' t = 0) \<or>
         ercAddress t = ZERO e \<or>
         recipientAddress t \<noteq> ZERO e \<or>
         slot (commitments t) 0 = Some (ZERO e) \<or>
         slot (commitments t) 1 \<noteq> Some (ZERO e) \<or>
         length (commitments t) \<noteq> 2 \<or>
         list_ex (\<lambda>n. n \<noteq> ZERO e) (nullifiers t) \<or>
         list_ex (\<lambda>cs. cs \<noteq> ZERO e) (compressedSecrets t) \<or>
         length (compressedSecrets t) \<noteq> 8 \<or>
         list_all (\<lambda>p. p = ZERO e) (proof' t) \<or>
         slot (historicRootBlockNumberL2 t) 0 \<noteq> Some 0 \<or>
         slot (historicRootBlockNumberL2 t) 1 \<noteq> Some 0
      then Inl (TransactionError
             ''The data provided was inconsistent with a transaction type of DEPOSIT'' 1)
      else Inr ())"
  by (simp add: checkTransactionType_def assms)

lemma checkTransactionType_withdraw:
  assumes "transactionType t = 3"
  shows "checkTransactionType e t =
     (if publicInputHash t = ZERO e \<or>
         (tokenType t \<noteq> 0 \<and> tokenId t = ZERO e \<and> value' t = 0) \<or>
         ercAddress t = ZERO e \<or>
         recipientAddress t = ZERO e \<or>
         list_ex (\<lambda>c. c \<noteq> ZERO e) (commitments t) \<or>
         slot (nullifiers t) 0 = Some (ZERO e) \<or>
         slot (nullifiers t) 1 \<noteq> Some (ZERO e) \<or>
         length (nullifiers t) \<noteq> 2 \<or>
         list_ex (\<lambda>cs. cs \<noteq> ZERO e) (compressedSecrets t) \<or>
         list_all (\<lambda>p. p = ZERO e) (proof' t)
      then Inl (TransactionError
             ''The data provided was inconsistent with a transaction type of WITHDRAW'' 1)
      else Inr ())"
  by (simp add: checkTransactionType_def assms)

lemma accepted_iff: "((if c then Inl x else Inr ()) = (Inr () :: error + unit)) = (\<not> c)"
  by simp

lemma firstRejection_accepts:
  "(firstRejection rs = Inr ()) = (\<forall>r \<in> set rs. r = Inr ())"
  by (induction rs rule: firstRejection.induct) auto

lemma firstRejection_member: "rs \<noteq> [] \<Longrightarrow> firstRejection rs \<in> set rs"
proof (induction rs rule: firstRejection.induct)
  case 1
  then show ?case by simp
next
  case (2 err rs)
  then show ?case by simp
next
  case (3 u rs)
  then show ?case by (cases rs) auto
qed

lemma verifyProof_posted:
  assumes "getVerificationKey e (transactionType t) = Some vk"
    and "publicInputs e t = Inr inputs"
  shows "verifyProof e t =
     (case zokratesVerify e vk (proof' t) inputs of
        None \<Rightarrow> Inl ExternalFailure
      | Some verifies \<Rightarrow>
          if verifies then Inr ()
          else Inl (TransactionError ''The proof did not verify'' 5),
      [VkRead (transactionType t),
       BlockRead (slot (historicRootBlockNumberL2 t) 0),
       BlockRead (slot (historicRootBlockNumberL2 t) 1),
       VerifyPost vk (proof' t) inputs])"
  using assms by (simp add: verifyProof_def split: option.split)

lemma historicRoot_missing:
  "getBlockByBlockNumberL2 e h = None \<Longrightarrow> root (historicRoot e h) = ZERO e"
  by (simp add: historicRoot_def)

lemma checkHistoricRoot_missing:
  assumes "length (historicRootBlockNumberL2 t) = 2"
    and "transactionType t \<in> {1, 2, 3}"
    and "getBlockByBlockNumberL2 e (Some (historicRootBlockNumberL2 t ! 0)) = None
       \<or> (transactionType t = 2
           \<and> getBlockByBlockNumberL2 e (Some (historicRootBlockNumberL2 t ! 1)) = None)"
  shows "fst (checkHistoricRoot e t) =
     Inl (TransactionError ''The historic root in the transaction does not exist'' 3)"
proof -
  obtain h0 h1 where hs: "historicRootBlockNumberL2 t = [h0, h1]"
    using list2 [OF assms(1)] by blast
  show ?thesis
    using assms(2,3) by (auto simp add: checkHistoricRoot_def hs slot_def Let_def)
qed

section \<open>The claims\<close>

text \<open>
  C1.  For a DOUBLE_TRANSFER transaction with two commitment slots, two nullifier slots
  and eight compressed secrets, the public-input vector is the flat sequence: the token
  address twice, both commitments, both nullifiers truncated, the roots of the first and
  the second historic block, and the eight compressed secrets truncated, in that order.
\<close>

theorem double_transfer_publicInputs:
  assumes "transactionType t = 2"
    and "length (commitments t) = 2"
    and "length (nullifiers t) = 2"
    and "length (compressedSecrets t) = 8"
  shows "publicInputs e t =
     Inr [ercAddress t, ercAddress t,
          commitments t ! 0, commitments t ! 1,
          hex_32_31 (nullifiers t ! 0), hex_32_31 (nullifiers t ! 1),
          root (historicRoot e (slot (historicRootBlockNumberL2 t) 0)),
          root (historicRoot e (slot (historicRootBlockNumberL2 t) 1)),
          hex_32_31 (compressedSecrets t ! 0), hex_32_31 (compressedSecrets t ! 1),
          hex_32_31 (compressedSecrets t ! 2), hex_32_31 (compressedSecrets t ! 3),
          hex_32_31 (compressedSecrets t ! 4), hex_32_31 (compressedSecrets t ! 5),
          hex_32_31 (compressedSecrets t ! 6), hex_32_31 (compressedSecrets t ! 7)]"
proof -
  obtain c0 c1 where c: "commitments t = [c0, c1]"
    using list2 [OF assms(2)] by blast
  obtain n0 n1 where n: "nullifiers t = [n0, n1]"
    using list2 [OF assms(3)] by blast
  obtain s0 s1 s2 s3 s4 s5 s6 s7
    where s: "compressedSecrets t = [s0, s1, s2, s3, s4, s5, s6, s7]"
    using list8 [OF assms(4)] by blast
  show ?thesis
    unfolding publicInputs_double [OF assms(1)] by (simp add: c n s)
qed

theorem double_transfer_publicInputs_witness:
  "transactionType exampleDouble = 2
   \<and> length (commitments exampleDouble) = 2
   \<and> length (nullifiers exampleDouble) = 2
   \<and> length (compressedSecrets exampleDouble) = 8
   \<and> publicInputs exampleEnv exampleDouble =
       Inr [1, 1, 2, 3, 21, 22, 9, 0, 31, 32, 33, 34, 35, 36, 37, 38]"
  using double_transfer_publicInputs [of exampleDouble exampleEnv]
  by (simp add: exampleDouble_def exampleEnv_def historicRoot_def slot_def hex_32_31_def)

text \<open>
  C2.  Truncation.  The 31-byte big-endian encoding of a truncated value is the 32-byte
  encoding of the original without its first (most significant) byte, and in 32 bytes the
  truncated value differs from the original in that byte only, which becomes zero.  The
  vectors of SINGLE_TRANSFER, DOUBLE_TRANSFER and WITHDRAW hold every nullifier and every
  compressed secret in this truncated form.
\<close>

theorem truncation_exact:
  "bytesBE 31 (hex_32_31 v) = tl (bytesBE 32 v)
   \<and> bytesBE 32 (hex_32_31 v) = 0 # tl (bytesBE 32 v)
   \<and> (transactionType t = 1 \<and> commitments t \<noteq> [] \<and> nullifiers t \<noteq> [] \<longrightarrow>
        publicInputs e t =
          Inr ([ercAddress t, commitments t ! 0, hex_32_31 (nullifiers t ! 0),
                root (historicRoot e (slot (historicRootBlockNumberL2 t) 0))]
               @ map hex_32_31 (compressedSecrets t)))
   \<and> (transactionType t = 2 \<longrightarrow>
        publicInputs e t =
          Inr ([ercAddress t, ercAddress t] @ commitments t @ map hex_32_31 (nullifiers t)
               @ [root (historicRoot e (slot (historicRootBlockNumberL2 t) 0)),
                  root (historicRoot e (slot (historicRootBlockNumberL2 t) 1))]
               @ map hex_32_31 (compressedSecrets t)))
   \<and> (transactionType t = 3 \<and> nullifiers t \<noteq> [] \<longrightarrow>
        publicInputs e t =
          Inr [ercAddress t, tokenId t, value' t, hex_32_31 (nullifiers t ! 0),
               recipientAddress t,
               root (historicRoot e (slot (historicRootBlockNumberL2 t) 0))])"
proof (intro conjI impI)
  show "bytesBE 31 (hex_32_31 v) = tl (bytesBE 32 v)"
    by (simp add: bytesBE_32 bytesBE_31_hex)
  show "bytesBE 32 (hex_32_31 v) = 0 # tl (bytesBE 32 v)"
    by (simp add: bytesBE_32 bytesBE_31_hex byte_lost)
next
  assume "transactionType t = 1 \<and> commitments t \<noteq> [] \<and> nullifiers t \<noteq> []"
  then show "publicInputs e t =
          Inr ([ercAddress t, commitments t ! 0, hex_32_31 (nullifiers t ! 0),
                root (historicRoot e (slot (historicRootBlockNumberL2 t) 0))]
               @ map hex_32_31 (compressedSecrets t))"
    by (simp add: publicInputs_single)
next
  assume "transactionType t = 2"
  then show "publicInputs e t =
          Inr ([ercAddress t, ercAddress t] @ commitments t @ map hex_32_31 (nullifiers t)
               @ [root (historicRoot e (slot (historicRootBlockNumberL2 t) 0)),
                  root (historicRoot e (slot (historicRootBlockNumberL2 t) 1))]
               @ map hex_32_31 (compressedSecrets t))"
    by (rule publicInputs_double)
next
  assume "transactionType t = 3 \<and> nullifiers t \<noteq> []"
  then show "publicInputs e t =
          Inr [ercAddress t, tokenId t, value' t, hex_32_31 (nullifiers t ! 0),
               recipientAddress t,
               root (historicRoot e (slot (historicRootBlockNumberL2 t) 0))]"
    by (simp add: publicInputs_withdraw)
qed

theorem truncation_exact_witness:
  "bytesBE 32 (0xAB00000000000000000000000000000000000000000000000000000000000715) =
     [0xAB, 0, 0, 0, 0, 0, 0, 0, 0, 0, 0, 0, 0, 0, 0, 0,
      0, 0, 0, 0, 0, 0, 0, 0, 0, 0, 0, 0, 0, 0, 7, 0x15]
   \<and> bytesBE 31
       (hex_32_31 0xAB00000000000000000000000000000000000000000000000000000000000715) =
     [0, 0, 0, 0, 0, 0, 0, 0, 0, 0, 0, 0, 0, 0, 0,
      0, 0, 0, 0, 0, 0, 0, 0, 0, 0, 0, 0, 0, 0, 7, 0x15]
   \<and> bytesBE 32
       (hex_32_31 0xAB00000000000000000000000000000000000000000000000000000000000715) =
     [0, 0, 0, 0, 0, 0, 0, 0, 0, 0, 0, 0, 0, 0, 0, 0,
      0, 0, 0, 0, 0, 0, 0, 0, 0, 0, 0, 0, 0, 0, 7, 0x15]
   \<and> publicInputs exampleEnv exampleSingle =
       Inr [1, 2, 21, 0, 31, 32, 33, 34, 35, 36, 37, 38]
   \<and> publicInputs exampleEnv exampleDouble =
       Inr [1, 1, 2, 3, 21, 22, 9, 0, 31, 32, 33, 34, 35, 36, 37, 38]
   \<and> publicInputs exampleEnv exampleWithdraw = Inr [1, 3, 0, 21, 4, 9]"
proof -
  let ?v = "0xAB00000000000000000000000000000000000000000000000000000000000715 :: bytes32"
  have b: "bytesBE 32 ?v =
     [0xAB, 0, 0, 0, 0, 0, 0, 0, 0, 0, 0, 0, 0, 0, 0, 0,
      0, 0, 0, 0, 0, 0, 0, 0, 0, 0, 0, 0, 0, 0, 7, 0x15]"
    by code_simp
  show ?thesis
    using truncation_exact [of ?v exampleSingle exampleEnv]
      truncation_exact [of ?v exampleDouble exampleEnv]
      truncation_exact [of ?v exampleWithdraw exampleEnv]
    by (simp add: b exampleSingle_def exampleDouble_def exampleWithdraw_def exampleEnv_def
        historicRoot_def slot_def hex_32_31_def)
qed

text \<open>
  C3, as stated, fails.  A transaction of type 4 whose hash does not match is rejected
  with the hash error, not with the unknown-type error: the hash check runs and settles
  first.  The proof path also runs: it reads the verification key and both blocks before
  its own \<open>switch\<close> rejects the type.
\<close>

theorem unknown_type_counterexample:
  "transactionType exampleUnknown = 4
   \<and> checkTransaction True mismatchEnv exampleUnknown =
       Inl (TransactionError ''The transaction hash did not match the transaction data'' 0)
   \<and> checkTransaction False mismatchEnv exampleUnknown =
       Inl (TransactionError ''The transaction hash did not match the transaction data'' 0)
   \<and> snd (verifyProof exampleEnv exampleUnknown) =
       [VkRead 4, BlockRead (Some 0), BlockRead (Some 0)]"
  by (simp add: examples checks)

text \<open>
  C3, amended.  For a type code outside 0..3 the type check yields the unknown-type error
  whatever the other fields hold, and validation rejects: with that error when the hash
  matches, with the hash error when it does not.  The historic-root check makes no
  lookup.  The proof path reads the verification key; if that read fails it ends there,
  otherwise it looks up both historic blocks and then rejects with the unknown-type
  error.  It never calls the verifier.
\<close>

theorem unknown_type_outcome:
  assumes "transactionType t \<notin> {0, 1, 2, 3}"
  shows "checkTransactionType e t = Inl (TransactionError ''Unknown transaction type'' 2)
       \<and> checkTransaction s e t =
           (if checkHash e t
            then Inl (TransactionError ''Unknown transaction type'' 2)
            else Inl (TransactionError
                        ''The transaction hash did not match the transaction data'' 0))
       \<and> checkHistoricRoot e t = (Inr (), [])
       \<and> (\<forall>vk p i. VerifyPost vk p i \<notin> set (snd (verifyProof e t)))
       \<and> fst (verifyProof e t) \<in>
           {Inl (TransactionError ''Unknown transaction type'' 2), Inl ExternalFailure}
       \<and> verifyProof e t =
           (case getVerificationKey e (transactionType t) of
              None \<Rightarrow> (Inl ExternalFailure, [VkRead (transactionType t)])
            | Some vkArray \<Rightarrow>
                (Inl (TransactionError ''Unknown transaction type'' 2),
                 [VkRead (transactionType t),
                  BlockRead (slot (historicRootBlockNumberL2 t) 0),
                  BlockRead (slot (historicRootBlockNumberL2 t) 1)]))"
proof -
  have ty: "checkTransactionType e t = Inl (TransactionError ''Unknown transaction type'' 2)"
    using assms by (simp add: checkTransactionType_def)
  have root: "checkHistoricRoot e t = (Inr (), [])"
    using assms by (simp add: checkHistoricRoot_def)
  have inputs: "publicInputs e t = Inl (TransactionError ''Unknown transaction type'' 2)"
    using assms by (simp add: publicInputs_def inputsArray_def)
  have post: "\<forall>vk p i. VerifyPost vk p i \<notin> set (snd (verifyProof e t))"
    by (simp add: verifyProof_def inputs split: option.split)
  have pf: "fst (verifyProof e t) \<in>
           {Inl (TransactionError ''Unknown transaction type'' 2), Inl ExternalFailure}"
    by (simp add: verifyProof_def inputs split: option.split)
  have reads: "verifyProof e t =
           (case getVerificationKey e (transactionType t) of
              None \<Rightarrow> (Inl ExternalFailure, [VkRead (transactionType t)])
            | Some vkArray \<Rightarrow>
                (Inl (TransactionError ''Unknown transaction type'' 2),
                 [VkRead (transactionType t),
                  BlockRead (slot (historicRootBlockNumberL2 t) 0),
                  BlockRead (slot (historicRootBlockNumberL2 t) 1)]))"
    by (simp add: verifyProof_def inputs split: option.split)
  have "checkTransaction s e t =
           (if checkHash e t
            then Inl (TransactionError ''Unknown transaction type'' 2)
            else Inl (TransactionError
                        ''The transaction hash did not match the transaction data'' 0))"
    by (simp add: checkTransaction_def checkTransactionHash_def ty)
  with ty root post pf reads show ?thesis by blast
qed

theorem unknown_type_outcome_witness:
  "transactionType exampleUnknown \<notin> {0, 1, 2, 3}
   \<and> checkTransactionType exampleEnv exampleUnknown =
       Inl (TransactionError ''Unknown transaction type'' 2)
   \<and> checkTransaction True exampleEnv exampleUnknown =
       Inl (TransactionError ''Unknown transaction type'' 2)
   \<and> checkTransaction True mismatchEnv exampleUnknown =
       Inl (TransactionError ''The transaction hash did not match the transaction data'' 0)
   \<and> checkHistoricRoot exampleEnv exampleUnknown = (Inr (), [])
   \<and> verifyProof exampleEnv exampleUnknown =
       (Inl (TransactionError ''Unknown transaction type'' 2),
        [VkRead 4, BlockRead (Some 0), BlockRead (Some 0)])
   \<and> verifyProof (exampleEnv\<lparr>getVerificationKey := (\<lambda>ty. None)\<rparr>) exampleUnknown =
       (Inl ExternalFailure, [VkRead 4])"
  using unknown_type_outcome [of exampleUnknown exampleEnv True]
    unknown_type_outcome [of exampleUnknown mismatchEnv True]
    unknown_type_outcome
      [of exampleUnknown "exampleEnv\<lparr>getVerificationKey := (\<lambda>ty. None)\<rparr>" True]
  by (simp add: examples slot_def)

text \<open>
  C4.  For DEPOSIT and WITHDRAW: a transaction that breaks the token rule (non-fungible
  token type, token id ZERO, value 0) is rejected with the inconsistency error naming its
  type; and if a transaction is accepted, then replacing its three rule fields by any
  \<open>a\<close>, \<open>b\<close>, \<open>c\<close> gives an accepted transaction exactly when \<open>a\<close> is fungible or
  \<open>b\<close> is not ZERO or \<open>c\<close> is not 0.
\<close>

theorem token_rule:
  assumes "transactionType t = 0 \<or> transactionType t = 3"
  shows "(\<not> tokenRule e t \<longrightarrow>
            checkTransactionType e t =
              Inl (TransactionError
                (if transactionType t = 0
                 then ''The data provided was inconsistent with a transaction type of DEPOSIT''
                 else ''The data provided was inconsistent with a transaction type of WITHDRAW'')
                1))
       \<and> (checkTransactionType e t = Inr () \<longrightarrow>
            (checkTransactionType e (t\<lparr>tokenType := a, tokenId := b, value' := c\<rparr>) = Inr ())
              = (a = 0 \<or> b \<noteq> ZERO e \<or> c \<noteq> 0))"
  using assms
proof
  assume ty: "transactionType t = 0"
  let ?t' = "t\<lparr>tokenType := a, tokenId := b, value' := c\<rparr>"
  have ty': "transactionType ?t' = 0" using ty by simp
  show ?thesis
    unfolding checkTransactionType_deposit [OF ty] checkTransactionType_deposit [OF ty']
      accepted_iff tokenRule_def
    using ty by simp
next
  assume ty: "transactionType t = 3"
  let ?t' = "t\<lparr>tokenType := a, tokenId := b, value' := c\<rparr>"
  have ty': "transactionType ?t' = 3" using ty by simp
  show ?thesis
    unfolding checkTransactionType_withdraw [OF ty] checkTransactionType_withdraw [OF ty']
      accepted_iff tokenRule_def
    using ty by simp
qed

theorem token_rule_witness:
  "(transactionType exampleDeposit = 0 \<or> transactionType exampleDeposit = 3)
   \<and> checkTransactionType exampleEnv exampleDeposit = Inr ()
   \<and> checkTransactionType exampleEnv
        (exampleDeposit\<lparr>tokenType := 1, tokenId := 0, value' := 0\<rparr>) \<noteq> Inr ()
   \<and> checkTransactionType exampleEnv
        (exampleDeposit\<lparr>tokenType := 1, tokenId := 0, value' := 5\<rparr>) = Inr ()
   \<and> \<not> tokenRule exampleEnv (exampleWithdraw\<lparr>tokenId := 0\<rparr>)
   \<and> checkTransactionType exampleEnv (exampleWithdraw\<lparr>tokenId := 0\<rparr>) =
        Inl (TransactionError
          ''The data provided was inconsistent with a transaction type of WITHDRAW'' 1)"
proof -
  have z: "ZERO exampleEnv = 0"
    by (simp add: exampleEnv_def)
  have d: "transactionType exampleDeposit = 0 \<or> transactionType exampleDeposit = 3"
    by (simp add: exampleDeposit_def)
  have w: "transactionType (exampleWithdraw\<lparr>tokenId := 0\<rparr>) = 0
         \<or> transactionType (exampleWithdraw\<lparr>tokenId := 0\<rparr>) = 3"
    by (simp add: exampleWithdraw_def)
  have ok: "checkTransactionType exampleEnv exampleDeposit = Inr ()"
    by (simp add: examples checkTransactionType_def slot_def)
  have bad: "\<not> tokenRule exampleEnv (exampleWithdraw\<lparr>tokenId := 0\<rparr>)"
    by (simp add: examples tokenRule_def)
  have r1: "checkTransactionType exampleEnv
        (exampleDeposit\<lparr>tokenType := 1, tokenId := 0, value' := 0\<rparr>) \<noteq> Inr ()"
    using token_rule [OF d, where e = exampleEnv and a = 1 and b = 0 and c = 0] ok
    by (simp add: z)
  have r2: "checkTransactionType exampleEnv
        (exampleDeposit\<lparr>tokenType := 1, tokenId := 0, value' := 5\<rparr>) = Inr ()"
    using token_rule [OF d, where e = exampleEnv and a = 1 and b = 0 and c = 5] ok
    by (simp add: z)
  have r3: "checkTransactionType exampleEnv (exampleWithdraw\<lparr>tokenId := 0\<rparr>) =
        Inl (TransactionError
          ''The data provided was inconsistent with a transaction type of WITHDRAW'' 1)"
    using token_rule [OF w, where e = exampleEnv] bad by (simp add: exampleWithdraw_def)
  from d ok r1 r2 bad r3 show ?thesis by blast
qed

text \<open>
  C5.  The code departs from the WITHDRAW template in one place.  Case 3 of the type check
  accepts exactly the transactions that meet every condition of the template except the
  count of compressed secrets: it tests that no compressed secret differs from ZERO and
  never tests that there are eight of them, as cases 0, 1 and 2 do.  A withdrawal that
  matches the template in everything else and carries no compressed secret at all, or
  nine of them, all ZERO, is accepted.  Every transaction the check rejects gets the
  inconsistency error naming WITHDRAW.
\<close>

theorem withdraw_secrets_length_unchecked:
  assumes "transactionType t = 3"
  shows "checkTransactionType e t =
           (if publicInputHash t \<noteq> ZERO e \<and>
               tokenRule e t \<and>
               ercAddress t \<noteq> ZERO e \<and>
               recipientAddress t \<noteq> ZERO e \<and>
               (\<forall>c \<in> set (commitments t). c = ZERO e) \<and>
               length (nullifiers t) = 2 \<and>
               nullifiers t ! 0 \<noteq> ZERO e \<and> nullifiers t ! 1 = ZERO e \<and>
               (\<forall>cs \<in> set (compressedSecrets t). cs = ZERO e) \<and>
               \<not> (\<forall>p \<in> set (proof' t). p = ZERO e)
            then Inr ()
            else Inl (TransactionError
              ''The data provided was inconsistent with a transaction type of WITHDRAW'' 1))
       \<and> (withdrawTemplate e t \<longleftrightarrow>
            checkTransactionType e t = Inr () \<and> length (compressedSecrets t) = 8)"
proof -
  let ?accepted = "publicInputHash t \<noteq> ZERO e \<and>
               tokenRule e t \<and>
               ercAddress t \<noteq> ZERO e \<and>
               recipientAddress t \<noteq> ZERO e \<and>
               (\<forall>c \<in> set (commitments t). c = ZERO e) \<and>
               length (nullifiers t) = 2 \<and>
               nullifiers t ! 0 \<noteq> ZERO e \<and> nullifiers t ! 1 = ZERO e \<and>
               (\<forall>cs \<in> set (compressedSecrets t). cs = ZERO e) \<and>
               \<not> (\<forall>p \<in> set (proof' t). p = ZERO e)"
  have code: "checkTransactionType e t =
           (if ?accepted then Inr ()
            else Inl (TransactionError
              ''The data provided was inconsistent with a transaction type of WITHDRAW'' 1))"
  proof (cases "length (nullifiers t) = 2")
    case True
    have "?accepted \<longleftrightarrow>
       \<not> (publicInputHash t = ZERO e \<or>
           (tokenType t \<noteq> 0 \<and> tokenId t = ZERO e \<and> value' t = 0) \<or>
           ercAddress t = ZERO e \<or>
           recipientAddress t = ZERO e \<or>
           list_ex (\<lambda>c. c \<noteq> ZERO e) (commitments t) \<or>
           slot (nullifiers t) 0 = Some (ZERO e) \<or>
           slot (nullifiers t) 1 \<noteq> Some (ZERO e) \<or>
           length (nullifiers t) \<noteq> 2 \<or>
           list_ex (\<lambda>cs. cs \<noteq> ZERO e) (compressedSecrets t) \<or>
           list_all (\<lambda>p. p = ZERO e) (proof' t))"
      unfolding tokenRule_def list_ex_iff list_all_iff slot_pair [OF True]
      using True by auto
    then show ?thesis
      unfolding checkTransactionType_withdraw [OF assms] by simp
  next
    case False
    then show ?thesis
      unfolding checkTransactionType_withdraw [OF assms] by simp
  qed
  have template:
    "withdrawTemplate e t \<longleftrightarrow> ?accepted \<and> length (compressedSecrets t) = 8"
    unfolding withdrawTemplate_def by blast
  define accepted where "accepted \<longleftrightarrow> ?accepted"
  have "checkTransactionType e t =
           (if accepted then Inr ()
            else Inl (TransactionError
              ''The data provided was inconsistent with a transaction type of WITHDRAW'' 1))"
    and "withdrawTemplate e t \<longleftrightarrow> accepted \<and> length (compressedSecrets t) = 8"
    unfolding accepted_def by (rule code, rule template)
  then have "checkTransactionType e t =
           (if accepted then Inr ()
            else Inl (TransactionError
              ''The data provided was inconsistent with a transaction type of WITHDRAW'' 1))
       \<and> (withdrawTemplate e t \<longleftrightarrow>
            checkTransactionType e t = Inr () \<and> length (compressedSecrets t) = 8)"
    by simp
  then show ?thesis
    unfolding accepted_def .
qed

theorem withdraw_secrets_length_unchecked_witness:
  "transactionType (exampleWithdraw\<lparr>compressedSecrets := []\<rparr>) = 3
   \<and> checkTransactionType exampleEnv (exampleWithdraw\<lparr>compressedSecrets := []\<rparr>) = Inr ()
   \<and> \<not> withdrawTemplate exampleEnv (exampleWithdraw\<lparr>compressedSecrets := []\<rparr>)
   \<and> checkTransactionType exampleEnv
        (exampleWithdraw\<lparr>compressedSecrets := [0, 0, 0, 0, 0, 0, 0, 0, 0]\<rparr>) = Inr ()
   \<and> \<not> withdrawTemplate exampleEnv
        (exampleWithdraw\<lparr>compressedSecrets := [0, 0, 0, 0, 0, 0, 0, 0, 0]\<rparr>)
   \<and> checkTransactionType exampleEnv exampleWithdraw = Inr ()
   \<and> withdrawTemplate exampleEnv exampleWithdraw
   \<and> checkTransactionType exampleEnv (exampleWithdraw\<lparr>recipientAddress := 0\<rparr>) =
        Inl (TransactionError
          ''The data provided was inconsistent with a transaction type of WITHDRAW'' 1)"
proof -
  let ?none = "exampleWithdraw\<lparr>compressedSecrets := []\<rparr>"
  let ?nine = "exampleWithdraw\<lparr>compressedSecrets := [0, 0, 0, 0, 0, 0, 0, 0, 0]\<rparr>"
  let ?bad = "exampleWithdraw\<lparr>recipientAddress := 0\<rparr>"
  have ty: "transactionType ?none = 3" "transactionType ?nine = 3"
    "transactionType exampleWithdraw = 3" "transactionType ?bad = 3"
    by (simp_all add: exampleWithdraw_def)
  have r1: "checkTransactionType exampleEnv ?none = Inr ()
          \<and> \<not> withdrawTemplate exampleEnv ?none"
    using withdraw_secrets_length_unchecked [OF ty(1), where e = exampleEnv]
    by (simp add: examples tokenRule_def)
  have r2: "checkTransactionType exampleEnv ?nine = Inr ()
          \<and> \<not> withdrawTemplate exampleEnv ?nine"
    using withdraw_secrets_length_unchecked [OF ty(2), where e = exampleEnv]
    by (simp add: examples tokenRule_def)
  have r3: "checkTransactionType exampleEnv exampleWithdraw = Inr ()
          \<and> withdrawTemplate exampleEnv exampleWithdraw"
    using withdraw_secrets_length_unchecked [OF ty(3), where e = exampleEnv]
    by (simp add: examples tokenRule_def)
  have r4: "checkTransactionType exampleEnv ?bad =
        Inl (TransactionError
          ''The data provided was inconsistent with a transaction type of WITHDRAW'' 1)"
    using withdraw_secrets_length_unchecked [OF ty(4), where e = exampleEnv]
    by (simp add: examples tokenRule_def)
  from ty(1) r1 r2 r3 r4 show ?thesis by blast
qed

text \<open>
  C6.  \<open>checkHistoricRoot\<close> fails, with the not-found error, exactly when a required
  lookup returns \<open>null\<close>.  For DEPOSIT and every type code other than 1, 2, 3 it succeeds
  without any lookup.  For SINGLE_TRANSFER and WITHDRAW it looks up the first referenced
  block and nothing else.  For a DOUBLE_TRANSFER with a pair of block numbers it looks up
  both and fails when either is missing.
\<close>

theorem historic_root_check:
  "(transactionType t \<notin> {1, 2, 3} \<longrightarrow> checkHistoricRoot e t = (Inr (), []))
   \<and> (transactionType t \<in> {1, 3} \<longrightarrow>
        checkHistoricRoot e t =
          (if getBlockByBlockNumberL2 e (slot (historicRootBlockNumberL2 t) 0) = None
           then Inl (TransactionError
                       ''The historic root in the transaction does not exist'' 3)
           else Inr (),
           [BlockRead (slot (historicRootBlockNumberL2 t) 0)]))
   \<and> (transactionType t = 2 \<and> length (historicRootBlockNumberL2 t) = 2 \<longrightarrow>
        checkHistoricRoot e t =
          (if getBlockByBlockNumberL2 e (Some (historicRootBlockNumberL2 t ! 0)) = None
              \<or> getBlockByBlockNumberL2 e (Some (historicRootBlockNumberL2 t ! 1)) = None
           then Inl (TransactionError
                       ''The historic root in the transaction does not exist'' 3)
           else Inr (),
           [BlockRead (Some (historicRootBlockNumberL2 t ! 0)),
            BlockRead (Some (historicRootBlockNumberL2 t ! 1))]))"
proof (intro conjI impI)
  assume "transactionType t \<notin> {1, 2, 3}"
  then show "checkHistoricRoot e t = (Inr (), [])"
    by (simp add: checkHistoricRoot_def)
next
  assume "transactionType t \<in> {1, 3}"
  then show "checkHistoricRoot e t =
          (if getBlockByBlockNumberL2 e (slot (historicRootBlockNumberL2 t) 0) = None
           then Inl (TransactionError
                       ''The historic root in the transaction does not exist'' 3)
           else Inr (),
           [BlockRead (slot (historicRootBlockNumberL2 t) 0)])"
    by (auto simp add: checkHistoricRoot_def Let_def)
next
  assume a: "transactionType t = 2 \<and> length (historicRootBlockNumberL2 t) = 2"
  then obtain h0 h1 where hs: "historicRootBlockNumberL2 t = [h0, h1]"
    using list2 [of "historicRootBlockNumberL2 t"] by blast
  from a show "checkHistoricRoot e t =
          (if getBlockByBlockNumberL2 e (Some (historicRootBlockNumberL2 t ! 0)) = None
              \<or> getBlockByBlockNumberL2 e (Some (historicRootBlockNumberL2 t ! 1)) = None
           then Inl (TransactionError
                       ''The historic root in the transaction does not exist'' 3)
           else Inr (),
           [BlockRead (Some (historicRootBlockNumberL2 t ! 0)),
            BlockRead (Some (historicRootBlockNumberL2 t ! 1))])"
    by (auto simp add: checkHistoricRoot_def hs slot_def Let_def)
qed

theorem historic_root_check_witness:
  "transactionType exampleDeposit \<notin> {1, 2, 3}
   \<and> checkHistoricRoot exampleEnv exampleDeposit = (Inr (), [])
   \<and> transactionType exampleUnknown \<notin> {1, 2, 3}
   \<and> checkHistoricRoot exampleEnv exampleUnknown = (Inr (), [])
   \<and> transactionType exampleSingle \<in> {1, 3}
   \<and> checkHistoricRoot exampleEnv exampleSingle =
       (Inl (TransactionError ''The historic root in the transaction does not exist'' 3),
        [BlockRead (Some 8)])
   \<and> transactionType exampleWithdraw \<in> {1, 3}
   \<and> checkHistoricRoot exampleEnv exampleWithdraw = (Inr (), [BlockRead (Some 7)])
   \<and> transactionType exampleDouble = 2
   \<and> length (historicRootBlockNumberL2 exampleDouble) = 2
   \<and> checkHistoricRoot exampleEnv exampleDouble =
       (Inl (TransactionError ''The historic root in the transaction does not exist'' 3),
        [BlockRead (Some 7), BlockRead (Some 8)])
   \<and> checkHistoricRoot exampleEnv (exampleDouble\<lparr>historicRootBlockNumberL2 := [7, 7]\<rparr>) =
       (Inr (), [BlockRead (Some 7), BlockRead (Some 7)])"
  using historic_root_check [of exampleDeposit exampleEnv]
    historic_root_check [of exampleUnknown exampleEnv]
    historic_root_check [of exampleSingle exampleEnv]
    historic_root_check [of exampleWithdraw exampleEnv]
    historic_root_check [of exampleDouble exampleEnv]
    historic_root_check
      [of "exampleDouble\<lparr>historicRootBlockNumberL2 := [7, 7]\<rparr>" exampleEnv]
  by (simp add: examples slot_def)

text \<open>
  C7.  Whatever the order of settlement, \<open>checkTransaction\<close> succeeds exactly when all four
  checks succeed, and its outcome is always the outcome of one of the four checks: a
  rejection is the failure of one of them, never swallowed and never replaced.
\<close>

theorem checkTransaction_all_four:
  "(checkTransaction s e t = Inr ()) =
     (checkTransactionHash e t = Inr () \<and> checkTransactionType e t = Inr ()
      \<and> fst (checkHistoricRoot e t) = Inr () \<and> fst (verifyProof e t) = Inr ())
   \<and> checkTransaction s e t \<in>
       {checkTransactionHash e t, checkTransactionType e t,
        fst (checkHistoricRoot e t), fst (verifyProof e t)}"
proof
  show "(checkTransaction s e t = Inr ()) =
     (checkTransactionHash e t = Inr () \<and> checkTransactionType e t = Inr ()
      \<and> fst (checkHistoricRoot e t) = Inr () \<and> fst (verifyProof e t) = Inr ())"
    unfolding checkTransaction_def firstRejection_accepts by (cases s) auto
  show "checkTransaction s e t \<in>
       {checkTransactionHash e t, checkTransactionType e t,
        fst (checkHistoricRoot e t), fst (verifyProof e t)}"
    unfolding checkTransaction_def
    using firstRejection_member
      [of "[checkTransactionHash e t, checkTransactionType e t] @
           (if s then [fst (checkHistoricRoot e t), fst (verifyProof e t)]
            else [fst (verifyProof e t), fst (checkHistoricRoot e t)])"]
    by (cases s) auto
qed

theorem checkTransaction_all_four_witness:
  "checkTransaction True exampleEnv exampleDeposit = Inr ()
   \<and> checkTransactionHash exampleEnv exampleDeposit = Inr ()
   \<and> checkTransactionType exampleEnv exampleDeposit = Inr ()
   \<and> fst (checkHistoricRoot exampleEnv exampleDeposit) = Inr ()
   \<and> fst (verifyProof exampleEnv exampleDeposit) = Inr ()
   \<and> checkTransaction True rejectingEnv exampleDeposit =
       fst (verifyProof rejectingEnv exampleDeposit)
   \<and> checkTransaction True rejectingEnv exampleDeposit =
       Inl (TransactionError ''The proof did not verify'' 5)"
proof -
  have a: "checkTransaction True exampleEnv exampleDeposit = Inr ()"
    by (simp add: examples checks)
  have b: "checkTransaction True rejectingEnv exampleDeposit =
       Inl (TransactionError ''The proof did not verify'' 5)"
    by (simp add: examples checks)
  have c: "fst (verifyProof rejectingEnv exampleDeposit) =
       Inl (TransactionError ''The proof did not verify'' 5)"
    by (simp add: examples checks)
  show ?thesis
    using checkTransaction_all_four [of True exampleEnv exampleDeposit] a b c by simp
qed

text \<open>
  C8.  For a DEPOSIT transaction that has a first commitment, the public-input vector is
  \<open>[ercAddress, tokenId, value, commitments[0]]\<close> in that order, whatever the environment;
  with the values 1, 3, 5 and 2 it is \<open>[1, 3, 5, 2]\<close>.
\<close>

theorem deposit_publicInputs:
  assumes "transactionType t = 0" and "commitments t \<noteq> []"
  shows "publicInputs e t = Inr [ercAddress t, tokenId t, value' t, commitments t ! 0]
       \<and> (ercAddress t = 1 \<and> tokenId t = 3 \<and> value' t = 5 \<and> commitments t ! 0 = 2
            \<longrightarrow> publicInputs e t = Inr [1, 3, 5, 2])"
  using assms
  by (simp add: publicInputs_def inputsArray_def PublicInputs_def elem_def slot_def)

theorem deposit_publicInputs_witness:
  "transactionType exampleDeposit = 0 \<and> commitments exampleDeposit \<noteq> []
   \<and> ercAddress exampleDeposit = 1 \<and> tokenId exampleDeposit = 3
   \<and> value' exampleDeposit = 5 \<and> commitments exampleDeposit ! 0 = 2
   \<and> publicInputs exampleEnv exampleDeposit = Inr [1, 3, 5, 2]"
  using deposit_publicInputs [of exampleDeposit exampleEnv]
  by (simp add: exampleDeposit_def)

text \<open>
  C9, as stated, fails.  A single transfer whose historic block is missing and whose
  proof does not verify is rejected with the not-found error when \<open>checkHistoricRoot\<close>
  settles first and with the proof error when \<open>verifyProof\<close> settles first, the transaction
  and the environment being the same.
\<close>

theorem schedule_counterexample:
  "checkTransaction True rejectingEnv exampleSingle =
     Inl (TransactionError ''The historic root in the transaction does not exist'' 3)
   \<and> checkTransaction False rejectingEnv exampleSingle =
     Inl (TransactionError ''The proof did not verify'' 5)"
  by (simp add: examples checks)

text \<open>
  C9, amended.  Two runs on the same transaction and environment agree on acceptance.
  They agree on the error too whenever the hash check or the type check fails, or at most
  one of \<open>checkHistoricRoot\<close> and \<open>verifyProof\<close> fails.  When the hash and type checks pass
  and both of those fail, a run surfaces the failure of the one that settles first: that
  of \<open>checkHistoricRoot\<close> in one order, that of \<open>verifyProof\<close> in the other.
\<close>

theorem schedule_independence:
  "(checkTransaction s e t = Inr ()) = (checkTransaction s' e t = Inr ())
   \<and> (checkTransactionHash e t \<noteq> Inr () \<or> checkTransactionType e t \<noteq> Inr ()
       \<or> fst (checkHistoricRoot e t) = Inr () \<or> fst (verifyProof e t) = Inr ()
       \<longrightarrow> checkTransaction s e t = checkTransaction s' e t)
   \<and> checkTransaction s' e t \<in>
       {checkTransaction s e t, fst (checkHistoricRoot e t), fst (verifyProof e t)}
   \<and> (checkTransactionHash e t = Inr () \<and> checkTransactionType e t = Inr ()
       \<and> fst (checkHistoricRoot e t) \<noteq> Inr () \<and> fst (verifyProof e t) \<noteq> Inr ()
       \<longrightarrow> checkTransaction s e t =
             (if s then fst (checkHistoricRoot e t) else fst (verifyProof e t)))"
proof -
  obtain h ty r p where eqs:
    "checkTransactionHash e t = h" "checkTransactionType e t = ty"
    "fst (checkHistoricRoot e t) = r" "fst (verifyProof e t) = p"
    by blast
  show ?thesis
    unfolding checkTransaction_def eqs
    by (cases h; cases ty; cases r; cases p; cases s; cases s'; simp)
qed

theorem schedule_independence_witness:
  "checkTransaction True exampleEnv exampleDeposit = Inr ()
   \<and> checkTransaction False exampleEnv exampleDeposit = Inr ()
   \<and> checkTransactionHash mismatchEnv exampleSingle \<noteq> Inr ()
   \<and> checkTransaction True mismatchEnv exampleSingle =
       checkTransaction False mismatchEnv exampleSingle
   \<and> fst (verifyProof exampleEnv exampleSingle) = Inr ()
   \<and> checkTransaction True exampleEnv exampleSingle =
       checkTransaction False exampleEnv exampleSingle
   \<and> checkTransactionHash rejectingEnv exampleSingle = Inr ()
   \<and> checkTransactionType rejectingEnv exampleSingle = Inr ()
   \<and> fst (checkHistoricRoot rejectingEnv exampleSingle) \<noteq> Inr ()
   \<and> fst (verifyProof rejectingEnv exampleSingle) \<noteq> Inr ()
   \<and> checkTransaction True rejectingEnv exampleSingle =
       fst (checkHistoricRoot rejectingEnv exampleSingle)
   \<and> checkTransaction False rejectingEnv exampleSingle =
       fst (verifyProof rejectingEnv exampleSingle)"
proof -
  have a: "checkTransaction True exampleEnv exampleDeposit = Inr ()"
    by (simp add: examples checks)
  have b: "checkTransactionHash mismatchEnv exampleSingle \<noteq> Inr ()"
    by (simp add: examples checkTransactionHash_def)
  have c: "fst (verifyProof exampleEnv exampleSingle) = Inr ()"
    by (simp add: examples checks)
  have d: "checkTransactionHash rejectingEnv exampleSingle = Inr ()"
    "checkTransactionType rejectingEnv exampleSingle = Inr ()"
    "fst (checkHistoricRoot rejectingEnv exampleSingle) \<noteq> Inr ()"
    "fst (verifyProof rejectingEnv exampleSingle) \<noteq> Inr ()"
    by (simp_all add: examples checks)
  show ?thesis
    using schedule_independence [of True exampleEnv exampleDeposit False]
      schedule_independence [of True mismatchEnv exampleSingle False]
      schedule_independence [of True exampleEnv exampleSingle False]
      schedule_independence [of True rejectingEnv exampleSingle False]
      schedule_independence [of False rejectingEnv exampleSingle True]
      a b c d
    by simp
qed

text \<open>
  C10.  For a SINGLE_TRANSFER, DOUBLE_TRANSFER or WITHDRAW transaction of the data model's
  shape whose verification key can be read: when the first referenced block is missing
  (or, for a double transfer, the second), \<open>verifyProof\<close> still builds the vector, with
  ZERO in the place of the missing root, posts exactly that vector to the verifier after
  its three reads, and reports what the verifier answers; the missing root is reported
  by \<open>checkHistoricRoot\<close>.
\<close>

theorem missing_root_substituted:
  assumes vk: "getVerificationKey e (transactionType t) = Some vk"
    and ty: "transactionType t \<in> {1, 2, 3}"
    and hs: "length (historicRootBlockNumberL2 t) = 2"
    and cs: "length (commitments t) = 2"
    and ns: "length (nullifiers t) = 2"
    and missing:
      "getBlockByBlockNumberL2 e (Some (historicRootBlockNumberL2 t ! 0)) = None
       \<or> (transactionType t = 2
           \<and> getBlockByBlockNumberL2 e (Some (historicRootBlockNumberL2 t ! 1)) = None)"
  shows "\<exists>inputs.
           publicInputs e t = Inr inputs
         \<and> (getBlockByBlockNumberL2 e (Some (historicRootBlockNumberL2 t ! 0)) = None \<longrightarrow>
              inputs ! (if transactionType t = 1 then 3
                        else if transactionType t = 2 then 6 else 5) = ZERO e)
         \<and> (transactionType t = 2
              \<and> getBlockByBlockNumberL2 e (Some (historicRootBlockNumberL2 t ! 1)) = None \<longrightarrow>
              inputs ! 7 = ZERO e)
         \<and> snd (verifyProof e t) =
             [VkRead (transactionType t),
              BlockRead (Some (historicRootBlockNumberL2 t ! 0)),
              BlockRead (Some (historicRootBlockNumberL2 t ! 1)),
              VerifyPost vk (proof' t) inputs]
         \<and> fst (verifyProof e t) =
             (case zokratesVerify e vk (proof' t) inputs of
                None \<Rightarrow> Inl ExternalFailure
              | Some verifies \<Rightarrow>
                  if verifies then Inr ()
                  else Inl (TransactionError ''The proof did not verify'' 5))
         \<and> fst (checkHistoricRoot e t) =
             Inl (TransactionError ''The historic root in the transaction does not exist'' 3)"
proof -
  obtain c0 c1 where c: "commitments t = [c0, c1]"
    using list2 [OF cs] by blast
  obtain n0 n1 where n: "nullifiers t = [n0, n1]"
    using list2 [OF ns] by blast
  obtain h0 h1 where h: "historicRootBlockNumberL2 t = [h0, h1]"
    using list2 [OF hs] by blast
  have root: "fst (checkHistoricRoot e t) =
             Inl (TransactionError ''The historic root in the transaction does not exist'' 3)"
    by (rule checkHistoricRoot_missing [OF hs ty missing])
  have s0: "slot (historicRootBlockNumberL2 t) 0 = Some h0"
    and s1: "slot (historicRootBlockNumberL2 t) 1 = Some h1"
    by (simp_all add: h slot_def)
  from ty consider "transactionType t = 1" | "transactionType t = 2" | "transactionType t = 3"
    by auto
  then show ?thesis
  proof cases
    case 1
    have inputs: "publicInputs e t =
        Inr ([ercAddress t, c0, hex_32_31 n0, root (historicRoot e (Some h0))]
             @ map hex_32_31 (compressedSecrets t))"
      using publicInputs_single [where t = t and e = e, unfolded s0] 1 by (simp add: c n)
    show ?thesis
      unfolding verifyProof_posted [OF vk inputs] inputs root s0 s1
      using missing 1 by (simp add: h historicRoot_missing)
  next
    case 2
    have inputs: "publicInputs e t =
        Inr ([ercAddress t, ercAddress t, c0, c1, hex_32_31 n0, hex_32_31 n1,
              root (historicRoot e (Some h0)), root (historicRoot e (Some h1))]
             @ map hex_32_31 (compressedSecrets t))"
      using publicInputs_double [OF 2, where e = e, unfolded s0 s1] by (simp add: c n)
    show ?thesis
      unfolding verifyProof_posted [OF vk inputs] inputs root s0 s1
      using missing 2 by (auto simp add: h historicRoot_missing)
  next
    case 3
    have inputs: "publicInputs e t =
        Inr [ercAddress t, tokenId t, value' t, hex_32_31 n0, recipientAddress t,
             root (historicRoot e (Some h0))]"
      using publicInputs_withdraw [where t = t and e = e, unfolded s0] 3 by (simp add: n)
    show ?thesis
      unfolding verifyProof_posted [OF vk inputs] inputs root s0 s1
      using missing 3 by (simp add: h historicRoot_missing)
  qed
qed

theorem missing_root_substituted_witness:
  "getVerificationKey exampleEnv (transactionType exampleSingle) = Some [1]
   \<and> transactionType exampleSingle \<in> {1, 2, 3}
   \<and> length (historicRootBlockNumberL2 exampleSingle) = 2
   \<and> length (commitments exampleSingle) = 2
   \<and> length (nullifiers exampleSingle) = 2
   \<and> getBlockByBlockNumberL2 exampleEnv
         (Some (historicRootBlockNumberL2 exampleSingle ! 0)) = None
   \<and> publicInputs exampleEnv exampleSingle =
         Inr [1, 2, 21, ZERO exampleEnv, 31, 32, 33, 34, 35, 36, 37, 38]
   \<and> snd (verifyProof exampleEnv exampleSingle) =
         [VkRead 1, BlockRead (Some 8), BlockRead (Some 0),
          VerifyPost [1] [1, 2, 3, 4] [1, 2, 21, 0, 31, 32, 33, 34, 35, 36, 37, 38]]
   \<and> fst (verifyProof exampleEnv exampleSingle) = Inr ()
   \<and> fst (checkHistoricRoot exampleEnv exampleSingle) =
         Inl (TransactionError ''The historic root in the transaction does not exist'' 3)"
proof -
  have vk: "getVerificationKey exampleEnv (transactionType exampleSingle) = Some [1]"
    by (simp add: examples)
  have ty: "transactionType exampleSingle \<in> {1, 2, 3}"
    by (simp add: examples)
  have hs: "length (historicRootBlockNumberL2 exampleSingle) = 2"
    and cs: "length (commitments exampleSingle) = 2"
    and ns: "length (nullifiers exampleSingle) = 2"
    by (simp_all add: examples)
  have missing: "getBlockByBlockNumberL2 exampleEnv
         (Some (historicRootBlockNumberL2 exampleSingle ! 0)) = None"
    by (simp add: examples)
  have inputs: "publicInputs exampleEnv exampleSingle =
         Inr [1, 2, 21, 0, 31, 32, 33, 34, 35, 36, 37, 38]"
    by (simp add: examples checks)
  have z: "ZERO exampleEnv = 0"
    and v: "zokratesVerify exampleEnv [1] (proof' exampleSingle)
              [1, 2, 21, 0, 31, 32, 33, 34, 35, 36, 37, 38] = Some True"
    and p: "proof' exampleSingle = [1, 2, 3, 4]"
    and h: "historicRootBlockNumberL2 exampleSingle = [8, 0]"
    and t: "transactionType exampleSingle = 1"
    by (simp_all add: examples)
  from missing_root_substituted [OF vk ty hs cs ns disjI1 [OF missing]]
  obtain xs where xs: "publicInputs exampleEnv exampleSingle = Inr xs"
    and post: "snd (verifyProof exampleEnv exampleSingle) =
             [VkRead (transactionType exampleSingle),
              BlockRead (Some (historicRootBlockNumberL2 exampleSingle ! 0)),
              BlockRead (Some (historicRootBlockNumberL2 exampleSingle ! 1)),
              VerifyPost [1] (proof' exampleSingle) xs]"
    and res: "fst (verifyProof exampleEnv exampleSingle) =
             (case zokratesVerify exampleEnv [1] (proof' exampleSingle) xs of
                None \<Rightarrow> Inl ExternalFailure
              | Some verifies \<Rightarrow>
                  if verifies then Inr ()
                  else Inl (TransactionError ''The proof did not verify'' 5))"
    and root: "fst (checkHistoricRoot exampleEnv exampleSingle) =
             Inl (TransactionError ''The historic root in the transaction does not exist'' 3)"
    by blast
  from xs inputs have xs': "xs = [1, 2, 21, 0, 31, 32, 33, 34, 35, 36, 37, 38]"
    by simp
  have post': "snd (verifyProof exampleEnv exampleSingle) =
         [VkRead 1, BlockRead (Some 8), BlockRead (Some 0),
          VerifyPost [1] [1, 2, 3, 4] [1, 2, 21, 0, 31, 32, 33, 34, 35, 36, 37, 38]]"
    using post unfolding xs' p h t by simp
  have res': "fst (verifyProof exampleEnv exampleSingle) = Inr ()"
    using res unfolding xs' v by simp
  from vk ty hs cs ns missing inputs post' res' root z show ?thesis
    by simp
qed

end
